theory Spec2Isabelle
  imports Main
begin

section \<open>Values, errors and strings\<close>

text \<open>
  The questionnaire entries are deserialised JSON, handled by Python 2 code. A value is
  \<open>None\<close>, a boolean, an integer, a string, a list, or a dictionary with string keys.
  The strings of deserialised JSON are \<open>unicode\<close> objects; a string is the list of its
  characters, each a code point below 256, so a text with a character beyond U+00FF is
  not covered. A dictionary is an association list read with \<open>map_of\<close>;
  floating-point numbers are left out.

  \<open>PMap\<close> is a dictionary with a key that is not a string. JSON has none; the one that
  this program can build is the result of \<open>getparameters\<close> for a list of indices (see
  \<open>getparameters_raw\<close>).
\<close>

datatype pyval =
    PNone
  | PBool bool
  | PInt int
  | PStr string
  | PList "pyval list"
  | PDict "(string \<times> pyval) list"
  | PMap "(pyval \<times> pyval) list"

text \<open>The exceptions the code can raise: a failed subscript of a dictionary
  (\<open>KeyError\<close>, carrying the key); \<open>TypeError\<close>, for hashing an unhashable value,
  iterating over a number, or a subscript that is not an integer on a list or a string; a
  list subscript out of range (\<open>IndexError\<close>); and the \<open>Exception(message)\<close> of the
  constructor.\<close>

datatype error =
    KeyError pyval
  | TypeError
  | IndexError
  | Exception "string option"

text \<open>Every validator returns the pair \<open>(valid, message)\<close>.\<close>

type_synonym validation = "bool \<times> string option"

text \<open>\<open>isinstance(v, basestring)\<close>.\<close>

fun isstring :: "pyval \<Rightarrow> bool" where
  "isstring (PStr s) = True"
| "isstring v = False"

text \<open>Lists and dictionaries are unhashable: using one as a dictionary key, or testing it
  for membership in a dictionary, raises \<open>TypeError\<close>.\<close>

fun hashable :: "pyval \<Rightarrow> bool" where
  "hashable (PList xs) = False"
| "hashable (PDict d) = False"
| "hashable (PMap m) = False"
| "hashable v = True"

text \<open>\<open>strip()\<close> removes whitespace from both ends. For a \<open>unicode\<close> object the
  whitespace characters below 256 are U+0009 to U+000D (tab, line feed, vertical tab, form
  feed, carriage return), U+001C to U+001F (the four separators), U+0020 (space), U+0085
  (next line) and U+00A0 (no-break space). (For a byte string \<open>strip()\<close> removes only
  the first five and the space.)\<close>

definition isspace :: "char \<Rightarrow> bool" where
  "isspace c = ((of_char c :: nat) \<in> {9, 10, 11, 12, 13, 28, 29, 30, 31, 32, 133, 160})"

definition strip :: "string \<Rightarrow> string" where
  "strip s = rev (dropWhile isspace (rev (dropWhile isspace s)))"

text \<open>What \<open>'{}'.format(v)\<close> puts in place of the braces, for the values that reach a
  format call in this program: a string is inserted as it is, and \<open>None\<close>, a boolean
  and an integer by their \<open>str\<close>. No list and no dictionary reaches a format call
  (\<open>iskey\<close> formats strings only, and \<open>istype\<close> raises before it formats an
  unhashable value), so the last equation is never used.\<close>

fun str_nat :: "nat \<Rightarrow> string" where
  "str_nat n = (if n < 10 then [char_of (48 + n)]
                else str_nat (n div 10) @ [char_of (48 + n mod 10)])"

declare str_nat.simps [simp del]

fun format :: "pyval \<Rightarrow> string" where
  "format PNone = ''None''"
| "format (PBool b) = (if b then ''True'' else ''False'')"
| "format (PInt i) = (if i < 0 then ''-'' @ str_nat (nat (- i)) else str_nat (nat i))"
| "format (PStr s) = s"
| "format v = []"

definition quoted :: "string \<Rightarrow> string" where
  "quoted s = [CHR 0x27] @ s @ [CHR 0x27]"


section \<open>Question.iskey and Question.isreservedkey\<close>

definition isreservedkey :: "pyval \<Rightarrow> bool" where
  "isreservedkey key = (key \<in> set [PStr ''end'', PStr ''photoAccessible'', PStr ''photoVisible''])"

text \<open>The character class \<open>[\w-]\<close> of the regular expression, without the
  \<open>LOCALE\<close> and \<open>UNICODE\<close> flags: ASCII letters, digits, underscore, hyphen.\<close>

definition iskeychar :: "char \<Rightarrow> bool" where
  "iskeychar c = (let n = (of_char c :: nat) in
     (48 \<le> n \<and> n \<le> 57) \<or> (65 \<le> n \<and> n \<le> 90) \<or> (97 \<le> n \<and> n \<le> 122) \<or> n = 95 \<or> n = 45)"

text \<open>\<open>match(r"[\w-]*", key).group()\<close>: the longest prefix of \<open>key\<close> made of
  characters of the class (the star is greedy and the match is anchored at the start).\<close>

definition match_group :: "string \<Rightarrow> string" where
  "match_group key = takeWhile iskeychar key"

definition iskey :: "pyval \<Rightarrow> validation" where
  "iskey key = (case key of
       PStr s \<Rightarrow>
         if length s < 1 then
           (False, Some ''Error! A question key must be a non-empty string.'')
         else if match_group s \<noteq> s then
           (False, Some (''Error! The key '' @ quoted s @ '' contains an illegal character. A key may only contain letters (a-z, A-Z), numbers (0-9), hyphens (-), and underscores (_). It must not contain any whitespace.''))
         else if isreservedkey key then
           (False, Some (''Error! The string '' @ quoted s @ '' is reserved for internal use and can not be used as a question key.''))
         else (True, None)
     | _ \<Rightarrow> (False, Some ''Error! A question key must be a non-empty string.''))"


section \<open>Question.istype\<close>

definition types :: "string list" where
  "types = [''binary'', ''dropdown-list'', ''select'', ''checklist'',
            ''illustrative-checklist'', ''text'', ''longtext'', ''number'', ''datetime'',
            ''date'', ''url'', ''geotagging'', ''custom'']"

definition deprecated :: "(string \<times> string) list" where
  "deprecated = [(''single_choice'', ''select''),
                 (''multiple_choice'', ''checklist''),
                 (''illustrated_multiple_choice'', ''illustrative-checklist''),
                 (''textinput'', ''text''),
                 (''textarea'', ''longtext'')]"

text \<open>\<open>v in xs\<close> for a list of strings compares with \<open>==\<close>, which no value other than
  a string satisfies; \<open>d.get(v)\<close> and \<open>v in d\<close> for a dictionary with string keys hash
  \<open>v\<close> first.\<close>

fun in_strings :: "pyval \<Rightarrow> string list \<Rightarrow> bool" where
  "in_strings (PStr s) xs = (s \<in> set xs)"
| "in_strings v xs = False"

fun dict_get :: "(string \<times> 'a) list \<Rightarrow> pyval \<Rightarrow> 'a option" where
  "dict_get d (PStr s) = map_of d s"
| "dict_get d v = None"

definition istype :: "pyval \<Rightarrow> error + validation" where
  "istype type =
     (if \<not> in_strings type types then
        (if \<not> hashable type then Inl TypeError
         else case dict_get deprecated type of
             Some replacement \<Rightarrow>
               Inr (False, Some (''Error! The question type '' @ quoted (format type)
                    @ '' is deprecated and has been replaced with '' @ quoted replacement @ ''.''))
           | None \<Rightarrow>
               Inr (False, Some (''Error! The question type '' @ quoted (format type)
                    @ '' is not recognized.'')))
      else Inr (True, None))"


section \<open>Internationalised text\<close>

text \<open>The item validator that \<open>Question.isquestion\<close> defines locally under the name
  \<open>isvalid\<close>: a string that is not empty once stripped.\<close>

definition isquestion_isvalid :: "pyval \<Rightarrow> validation" where
  "isquestion_isvalid input = (case input of
       PStr s \<Rightarrow>
         if length (strip s) = 0 then (False, Some ''Error! The string must not be empty!'')
         else (True, None)
     | _ \<Rightarrow> (False, Some ''Error! The input must be a StringType or UnicodeType.''))"

text \<open>
  Modelled from the spec: the module \<open>src/i18n.py\<close>, from which the class imports
  \<open>i18nify\<close> and \<open>isi18nified\<close>, is not among the sources. Section 4.3 of the
  specification describes both.

  \<open>isi18nified\<close>: a value is i18nified if it is null, or a mapping from language-code
  string to a value that passes the item validator; any other shape is invalid, with a
  descriptive message. The keys of a dictionary are strings by type. The wording of the
  message for a wrong shape is not given; for a rejected item the message of the item
  validator is passed on.
\<close>

definition isi18nified :: "pyval \<Rightarrow> (pyval \<Rightarrow> validation) \<Rightarrow> validation" where
  "isi18nified object validator = (case object of
       PNone \<Rightarrow> (True, None)
     | PDict d \<Rightarrow>
         (case filter (\<lambda>(language, item). \<not> fst (validator item)) d of
            [] \<Rightarrow> (True, None)
          | (language, item) # rest \<Rightarrow> (False, snd (validator item)))
     | _ \<Rightarrow> (False, Some ''Error! The object is not a dictionary of language codes and strings.''))"

text \<open>
  Modelled from the spec: \<open>i18nify\<close> normalises informal raw input (for example a bare
  string) into the mapping form when the surrounding system supports such a convention,
  passes mappings through unchanged and converts missing input to null. The convention for
  informal input is the parameter \<open>informal\<close>.
\<close>

definition i18nify :: "(pyval \<Rightarrow> pyval) \<Rightarrow> pyval \<Rightarrow> pyval" where
  "i18nify informal object = (case object of
       PNone \<Rightarrow> PNone
     | PDict d \<Rightarrow> PDict d
     | _ \<Rightarrow> informal object)"

definition isquestion :: "pyval \<Rightarrow> validation" where
  "isquestion question = isi18nified question isquestion_isvalid"

definition ishint :: "pyval \<Rightarrow> validation" where
  "ishint hint = (if hint = PNone then (True, None) else isquestion hint)"


section \<open>Parameters\<close>

definition isparameters :: "pyval \<Rightarrow> validation" where
  "isparameters parameters = (case parameters of
       PNone \<Rightarrow> (True, None)
     | PDict d \<Rightarrow> (True, None)
     | PMap m \<Rightarrow> (True, None)
     | _ \<Rightarrow> (False, Some ''Error! Question parameters must be a dictionary.''))"

text \<open>The class attribute \<open>__default_parameters\<close>.\<close>

definition default_parameters :: "(string \<times> (string \<times> pyval) list) list" where
  "default_parameters =
     [(''binary'', []),
      (''dropdown-list'',
         [(''options'', PNone),
          (''prompt'', PDict [(''en'', PStr ''Please select an option'')]),
          (''size'', PInt 1)]),
      (''select'', [(''options'', PNone), (''size'', PInt 8)]),
      (''checklist'', [(''options'', PNone), (''size'', PInt 8)]),
      (''illustrative-checklist'', [(''options'', PNone)]),
      (''text'', [(''placeholder'', PNone), (''maxlength'', PInt 128)]),
      (''longtext'', [(''placeholder'', PNone), (''maxlength'', PInt 512)]),
      (''number'',
         [(''placeholder'', PDict [(''en'', PStr ''Please enter a number'')]),
          (''min'', PNone),
          (''max'', PNone),
          (''maxlength'', PInt 256)]),
      (''datetime'',
         [(''mindate'', PNone), (''maxdate'', PNone), (''mintime'', PNone), (''maxtime'', PNone)]),
      (''date'', [(''min'', PNone), (''max'', PNone)]),
      (''url'',
         [(''placeholder'', PDict [(''en'', PStr ''Please enter a URL e.g. http://www.example.com'')]),
          (''maxlength'', PInt 2000)]),
      (''geotagging'', [(''location'', PNone)])]"

text \<open>\<open>d[key] = value\<close> on an association list: the entry is replaced where the key is
  present, and added otherwise.\<close>

fun setitem :: "(string \<times> 'a) list \<Rightarrow> string \<Rightarrow> 'a \<Rightarrow> (string \<times> 'a) list" where
  "setitem [] key v = [(key, v)]"
| "setitem ((k, x) # d) key v = (if k = key then (k, v) # d else (k, x) # setitem d key v)"

text \<open>The keys a dictionary enumerates, each once.\<close>

definition keys :: "(string \<times> 'a) list \<Rightarrow> string list" where
  "keys d = remdups (map fst d)"

text \<open>
  \<open>getparameters(type, defaults)\<close>, for \<open>defaults\<close> a dictionary or \<open>None\<close> as the
  docstring declares it. The subscript \<open>__default_parameters[type]\<close> comes first and raises
  \<open>KeyError\<close> for a key the table does not have. The loop assigns \<open>defaults[key]\<close> for
  the keys whose value is not \<open>None\<close>.
\<close>

definition getparameters :: "pyval \<Rightarrow> (string \<times> pyval) list option \<Rightarrow> error + (string \<times> pyval) list" where
  "getparameters type defaults =
     (if \<not> hashable type then Inl TypeError
      else case dict_get default_parameters type of
          None \<Rightarrow> Inl (KeyError type)
        | Some parameters \<Rightarrow>
            (case defaults of
               None \<Rightarrow> Inr parameters
             | Some d \<Rightarrow>
                 Inr (foldl (\<lambda>parameters key.
                               case map_of d key of
                                 Some v \<Rightarrow> setitem parameters key v
                               | None \<Rightarrow> parameters)
                        parameters
                        (filter (\<lambda>k. map_of d k \<noteq> Some PNone) (keys d)))))"

text \<open>
  The constructor passes \<open>entry.get("parameters")\<close> to \<open>getparameters\<close> as it is,
  before any validator has seen it. \<open>getparameters_raw\<close> is the same function on a value
  of any shape. The subscript of the table and the copy come first, whatever the shape.
  Then, for a value that is neither \<open>None\<close> nor a dictionary, the comprehension
  \<open>[k for k in defaults if defaults[k] is not None]\<close> is evaluated:
  a number cannot be iterated over (\<open>TypeError\<close>); the characters of a string are not
  integers, so the first subscript raises \<open>TypeError\<close>, and the empty string gives no
  key; the elements of a list are used as subscripts of the list itself, which raises
  \<open>TypeError\<close> at the first element that is not an integer or a boolean and
  \<open>IndexError\<close> at the first one out of range. When every element is an index, the loop
  assigns \<open>parameters[k] = defaults[k]\<close> with integer keys, and the result is a
  dictionary with keys that are not strings.
\<close>

text \<open>A list subscript: an integer, or a boolean (\<open>True\<close> is 1 and \<open>False\<close> is 0); a
  negative one counts from the end.\<close>

fun index_of :: "pyval \<Rightarrow> int option" where
  "index_of (PInt i) = Some i"
| "index_of (PBool b) = Some (if b then 1 else 0)"
| "index_of v = None"

definition getitem :: "pyval list \<Rightarrow> pyval \<Rightarrow> error + pyval" where
  "getitem xs k = (case index_of k of
       None \<Rightarrow> Inl TypeError
     | Some i \<Rightarrow>
         if 0 \<le> i \<and> i < int (length xs) then Inr (xs ! nat i)
         else if - int (length xs) \<le> i \<and> i < 0 then Inr (xs ! nat (int (length xs) + i))
         else Inl IndexError)"

text \<open>\<open>[k for k in ks if xs[k] is not None]\<close>, with \<open>ks\<close> the elements of \<open>xs\<close>
  still to visit.\<close>

fun comprehension :: "pyval list \<Rightarrow> pyval list \<Rightarrow> error + pyval list" where
  "comprehension xs [] = Inr []"
| "comprehension xs (k # ks) =
     (case getitem xs k of
        Inl e \<Rightarrow> Inl e
      | Inr v \<Rightarrow>
          (case comprehension xs ks of
             Inl e \<Rightarrow> Inl e
           | Inr selected \<Rightarrow> Inr (if v \<noteq> PNone then k # selected else selected)))"

text \<open>Two keys are the same key of a dictionary when they are equal; \<open>True\<close> equals 1
  and \<open>False\<close> equals 0. \<open>d[key] = value\<close> keeps the key that is already there.\<close>

definition samekey :: "pyval \<Rightarrow> pyval \<Rightarrow> bool" where
  "samekey a b = (case (index_of a, index_of b) of
       (Some i, Some j) \<Rightarrow> i = j
     | _ \<Rightarrow> a = b)"

fun setitem_key :: "(pyval \<times> pyval) list \<Rightarrow> pyval \<Rightarrow> pyval \<Rightarrow> (pyval \<times> pyval) list" where
  "setitem_key [] key v = [(key, v)]"
| "setitem_key ((k, x) # m) key v =
     (if samekey k key then (k, v) # m else (k, x) # setitem_key m key v)"

definition getparameters_raw :: "pyval \<Rightarrow> pyval \<Rightarrow> error + pyval" where
  "getparameters_raw type defaults =
     (case defaults of
        PNone \<Rightarrow>
          (case getparameters type None of
             Inl e \<Rightarrow> Inl e
           | Inr parameters \<Rightarrow> Inr (PDict parameters))
      | PDict d \<Rightarrow>
          (case getparameters type (Some d) of
             Inl e \<Rightarrow> Inl e
           | Inr parameters \<Rightarrow> Inr (PDict parameters))
      | other \<Rightarrow>
          (case getparameters type None of
             Inl e \<Rightarrow> Inl e
           | Inr parameters \<Rightarrow>
               (case other of
                  PStr s \<Rightarrow> if s = [] then Inr (PDict parameters) else Inl TypeError
                | PList xs \<Rightarrow>
                    (case comprehension xs xs of
                       Inl e \<Rightarrow> Inl e
                     | Inr [] \<Rightarrow> Inr (PDict parameters)
                     | Inr selected \<Rightarrow>
                         Inr (PMap (foldl (\<lambda>m key.
                                             case getitem xs key of
                                               Inr v \<Rightarrow> setitem_key m key v
                                             | Inl e \<Rightarrow> m)
                                      (map (\<lambda>(k, v). (PStr k, v)) parameters)
                                      selected)))
                | PMap m \<Rightarrow>
                    Inr (PMap (foldl (\<lambda>p (k, v). setitem_key p k v)
                                 (map (\<lambda>(k, v). (PStr k, v)) parameters)
                                 (filter (\<lambda>(k, v). v \<noteq> PNone) m)))
                | _ \<Rightarrow> Inl TypeError)))"


section \<open>Question.isvalid and the constructor\<close>

text \<open>The attributes of a \<open>Question\<close> object; each is \<open>None\<close> in the class body, and
  the constructor never assigns \<open>help\<close>.\<close>

record Question =
  q_key :: pyval
  q_type :: pyval
  q_question :: pyval
  q_hint :: pyval
  q_help :: pyval
  q_parameters :: pyval

text \<open>
  \<open>isvalid\<close> builds the dictionary \<open>validations\<close>, whose keys are the five validator
  functions and whose values are the attributes they check, and walks
  \<open>validations.items()\<close>, returning at the first validator that rejects. A Python 2
  dictionary enumerates its entries in hash-table order, and a function hashes by its
  address, so the code does not fix the order of the walk: it is the parameter \<open>order\<close>,
  an arrangement of the five validators. \<open>source_order\<close> is the order of the dictionary
  display in the source text.
\<close>

datatype validator = Iskey | Istype | Isquestion | Ishint | Isparameters

definition source_order :: "validator list" where
  "source_order = [Iskey, Istype, Isquestion, Ishint, Isparameters]"

fun validations :: "Question \<Rightarrow> validator \<Rightarrow> pyval" where
  "validations question Iskey = q_key question"
| "validations question Istype = q_type question"
| "validations question Isquestion = q_question question"
| "validations question Ishint = q_hint question"
| "validations question Isparameters = q_parameters question"

fun call :: "validator \<Rightarrow> pyval \<Rightarrow> error + validation" where
  "call Iskey v = Inr (iskey v)"
| "call Istype v = istype v"
| "call Isquestion v = Inr (isquestion v)"
| "call Ishint v = Inr (ishint v)"
| "call Isparameters v = Inr (isparameters v)"

fun isvalid_loop :: "(validator \<times> pyval) list \<Rightarrow> error + validation" where
  "isvalid_loop [] = Inr (True, None)"
| "isvalid_loop ((validator, v) # items) =
     (case call validator v of
        Inl e \<Rightarrow> Inl e
      | Inr (valid, message) \<Rightarrow>
          if \<not> valid then Inr (False, message) else isvalid_loop items)"

definition isvalid :: "validator list \<Rightarrow> Question \<Rightarrow> error + validation" where
  "isvalid order question =
     isvalid_loop (map (\<lambda>validator. (validator, validations question validator)) order)"

text \<open>
  A raw questionnaire entry, read by the constructor with \<open>entry.get\<close>: a field the entry
  does not have reads as \<open>None\<close>. No field is restricted in shape: the constructor
  checks none before it uses it.
\<close>

record entry =
  e_type :: pyval
  e_question :: pyval
  e_hint :: pyval
  e_parameters :: pyval

text \<open>\<open>Question.__init__(self, key, entry)\<close>: the attributes are assigned in the order of
  the source, so an exception of \<open>getparameters\<close> leaves the constructor before
  \<open>isvalid\<close> is called. \<open>init_type\<close> is the second assignment to \<open>self.type\<close>:
  stripped if a string, \<open>None\<close> otherwise.\<close>

definition init_type :: "pyval \<Rightarrow> pyval" where
  "init_type type = (case type of PStr s \<Rightarrow> PStr (strip s) | _ \<Rightarrow> PNone)"

definition init :: "(pyval \<Rightarrow> pyval) \<Rightarrow> validator list \<Rightarrow> pyval \<Rightarrow> entry \<Rightarrow> error + Question" where
  "init informal order key entry =
     (let type = init_type (e_type entry);
          question = i18nify informal (e_question entry);
          hint = i18nify informal (e_hint entry)
      in case getparameters_raw type (e_parameters entry) of
           Inl e \<Rightarrow> Inl e
         | Inr parameters \<Rightarrow>
             (let self = \<lparr> q_key = key, q_type = type, q_question = question, q_hint = hint,
                           q_help = PNone, q_parameters = parameters \<rparr>
              in case isvalid order self of
                   Inl e \<Rightarrow> Inl e
                 | Inr (valid, message) \<Rightarrow>
                     if \<not> valid then Inl (Exception message) else Inr self))"

section \<open>The objects behind getparameters\<close>

text \<open>
  Dictionaries and lists are objects: a variable or an entry of a container holds a
  reference to one, and an assignment into a container changes the object for every holder
  of the reference. To follow what a caller can change through the dictionary that
  \<open>getparameters\<close> returns, the same function is given a second time over an explicit
  store. A slot holds an immutable value or the address of an object; the store is the list
  of the objects allocated so far, and an address is a position in it.
\<close>

type_synonym addr = nat

datatype slot = SNone | SBool bool | SInt int | SStr string | SRef addr

datatype object =
    ODict "(string \<times> slot) list"
  | OList "slot list"
  | OMap "(slot \<times> slot) list"

type_synonym heap = "object list"

definition alloc :: "object \<Rightarrow> heap \<Rightarrow> addr \<times> heap" where
  "alloc obj h = (length h, h @ [obj])"

definition dict_at :: "heap \<Rightarrow> addr \<Rightarrow> (string \<times> slot) list option" where
  "dict_at h a = (if a < length h then (case h ! a of ODict d \<Rightarrow> Some d | _ \<Rightarrow> None)
                  else None)"

text \<open>Evaluating a display such as \<open>{"en": "Please select an option"}\<close> builds the inner
  objects first and the container last.\<close>

function (sequential) store :: "pyval \<Rightarrow> heap \<Rightarrow> slot \<times> heap"
  and store_list :: "pyval list \<Rightarrow> heap \<Rightarrow> slot list \<times> heap"
  and store_items :: "(string \<times> pyval) list \<Rightarrow> heap \<Rightarrow> (string \<times> slot) list \<times> heap"
  and store_pairs :: "(pyval \<times> pyval) list \<Rightarrow> heap \<Rightarrow> (slot \<times> slot) list \<times> heap" where
  "store PNone h = (SNone, h)"
| "store (PBool b) h = (SBool b, h)"
| "store (PInt i) h = (SInt i, h)"
| "store (PStr s) h = (SStr s, h)"
| "store (PList xs) h =
     (case store_list xs h of (slots, h') \<Rightarrow>
        (case alloc (OList slots) h' of (a, h'') \<Rightarrow> (SRef a, h'')))"
| "store (PDict d) h =
     (case store_items d h of (items, h') \<Rightarrow>
        (case alloc (ODict items) h' of (a, h'') \<Rightarrow> (SRef a, h'')))"
| "store (PMap m) h =
     (case store_pairs m h of (pairs, h') \<Rightarrow>
        (case alloc (OMap pairs) h' of (a, h'') \<Rightarrow> (SRef a, h'')))"
| "store_list [] h = ([], h)"
| "store_list (x # xs) h =
     (case store x h of (slot, h') \<Rightarrow>
        (case store_list xs h' of (slots, h'') \<Rightarrow> (slot # slots, h'')))"
| "store_items [] h = ([], h)"
| "store_items ((k, x) # d) h =
     (case store x h of (slot, h') \<Rightarrow>
        (case store_items d h' of (items, h'') \<Rightarrow> ((k, slot) # items, h'')))"
| "store_pairs [] h = ([], h)"
| "store_pairs ((k, x) # m) h =
     (case store k h of (key, h1) \<Rightarrow>
        (case store x h1 of (slot, h2) \<Rightarrow>
           (case store_pairs m h2 of (pairs, h3) \<Rightarrow> ((key, slot) # pairs, h3))))"
  by pat_completeness auto

termination
  by (relation "measure (\<lambda>x. case x of
          Inl (Inl (v, h)) \<Rightarrow> 2 * size v
        | Inl (Inr (xs, h)) \<Rightarrow> Suc (2 * size_list size xs)
        | Inr (Inl (d, h)) \<Rightarrow> Suc (2 * size_list (size_prod (\<lambda>k. 0) size) d)
        | Inr (Inr (m, h)) \<Rightarrow> Suc (2 * size_list (size_prod size size) m))")
     auto

text \<open>Reading a slot back as a value, following references to the given depth;
  \<open>None\<close> when the depth is used up or an address is not allocated.\<close>

function (sequential) load :: "nat \<Rightarrow> heap \<Rightarrow> slot \<Rightarrow> pyval option"
  and load_list :: "nat \<Rightarrow> heap \<Rightarrow> slot list \<Rightarrow> pyval list option"
  and load_items :: "nat \<Rightarrow> heap \<Rightarrow> (string \<times> slot) list \<Rightarrow> (string \<times> pyval) list option"
  and load_pairs :: "nat \<Rightarrow> heap \<Rightarrow> (slot \<times> slot) list \<Rightarrow> (pyval \<times> pyval) list option" where
  "load n h SNone = Some PNone"
| "load n h (SBool b) = Some (PBool b)"
| "load n h (SInt i) = Some (PInt i)"
| "load n h (SStr s) = Some (PStr s)"
| "load 0 h (SRef a) = None"
| "load (Suc n) h (SRef a) =
     (if a < length h then
        (case h ! a of
           ODict d \<Rightarrow> map_option PDict (load_items n h d)
         | OList xs \<Rightarrow> map_option PList (load_list n h xs)
         | OMap m \<Rightarrow> map_option PMap (load_pairs n h m))
      else None)"
| "load_list n h [] = Some []"
| "load_list n h (slot # slots) =
     (case load n h slot of
        None \<Rightarrow> None
      | Some v \<Rightarrow> map_option ((#) v) (load_list n h slots))"
| "load_items n h [] = Some []"
| "load_items n h ((k, slot) # items) =
     (case load n h slot of
        None \<Rightarrow> None
      | Some v \<Rightarrow> map_option ((#) (k, v)) (load_items n h items))"
| "load_pairs n h [] = Some []"
| "load_pairs n h ((key, slot) # pairs) =
     (case load n h key of
        None \<Rightarrow> None
      | Some k \<Rightarrow>
          (case load n h slot of
             None \<Rightarrow> None
           | Some v \<Rightarrow> map_option ((#) (k, v)) (load_pairs n h pairs)))"
  by pat_completeness auto

termination
  by (relation "measures [\<lambda>x. case x of
          Inl (Inl (n, h, s)) \<Rightarrow> n
        | Inl (Inr (n, h, ss)) \<Rightarrow> n
        | Inr (Inl (n, h, d)) \<Rightarrow> n
        | Inr (Inr (n, h, m)) \<Rightarrow> n,
       \<lambda>x. case x of
          Inl (Inl (n, h, s)) \<Rightarrow> 0
        | Inl (Inr (n, h, ss)) \<Rightarrow> Suc (length ss)
        | Inr (Inl (n, h, d)) \<Rightarrow> Suc (length d)
        | Inr (Inr (n, h, m)) \<Rightarrow> Suc (length m)]")
     auto

text \<open>The class body binds \<open>__default_parameters\<close> to the dictionary it displays: the
  slot of the table, and the store after the class statement.\<close>

definition class_body :: "slot \<times> heap" where
  "class_body =
     store (PDict (map (\<lambda>(type, parameters). (type, PDict parameters)) default_parameters)) []"

text \<open>\<open>d[key] = value\<close> on the dictionary at address \<open>a\<close>.\<close>

definition setitem_at :: "heap \<Rightarrow> addr \<Rightarrow> string \<Rightarrow> slot \<Rightarrow> heap" where
  "setitem_at h a key v =
     (case dict_at h a of
        Some d \<Rightarrow> h[a := ODict (setitem d key v)]
      | None \<Rightarrow> h)"

text \<open>
  \<open>getparameters\<close> over the store: \<open>.copy()\<close> allocates a new dictionary with the
  entries of the default one, slot by slot (a shallow copy: a slot that is a reference is
  copied as a reference), and the loop assigns into the new dictionary. The result is the
  address of the new dictionary and the store after the call; \<open>None\<close> stands for a store
  in which the table, a default set or \<open>defaults\<close> is not a dictionary, which no call of
  the program meets.
\<close>

definition getparameters_at :: "slot \<Rightarrow> pyval \<Rightarrow> addr option \<Rightarrow> heap \<Rightarrow> (error + addr \<times> heap) option" where
  "getparameters_at table type defaults h =
     (case table of
        SRef t \<Rightarrow>
          (case dict_at h t of
             None \<Rightarrow> None
           | Some defaults_table \<Rightarrow>
               if \<not> hashable type then Some (Inl TypeError)
               else (case dict_get defaults_table type of
                   None \<Rightarrow> Some (Inl (KeyError type))
                 | Some (SRef b) \<Rightarrow>
                     (case dict_at h b of
                        None \<Rightarrow> None
                      | Some original \<Rightarrow>
                          (case alloc (ODict original) h of (parameters, h') \<Rightarrow>
                             (case defaults of
                                None \<Rightarrow> Some (Inr (parameters, h'))
                              | Some u \<Rightarrow>
                                  (case dict_at h' u of
                                     None \<Rightarrow> None
                                   | Some d \<Rightarrow>
                                       Some (Inr (parameters,
                                         foldl (\<lambda>h key.
                                                  case map_of d key of
                                                    Some v \<Rightarrow> setitem_at h parameters key v
                                                  | None \<Rightarrow> h)
                                           h'
                                           (filter (\<lambda>k. map_of d k \<noteq> Some SNone) (keys d))))))))
                 | Some other \<Rightarrow> None))
      | other \<Rightarrow> None)"

text \<open>
  A caller of the kind the claim on independent results is about:

  \<^verbatim>\<open>first = Question.getparameters(type)\<close>
  \<^verbatim>\<open>second = Question.getparameters(type)\<close>
  \<^verbatim>\<open>first[name][language] = text\<close>
  \<^verbatim>\<open>third = Question.getparameters(type)\<close>

  \<open>shared_default\<close> returns what \<open>second\<close> reads as before the assignment, what it
  reads as after it, and what \<open>third\<close> reads as.
\<close>

definition shared_default :: "string \<Rightarrow> string \<Rightarrow> string \<Rightarrow> string
    \<Rightarrow> (pyval option \<times> pyval option \<times> pyval option) option" where
  "shared_default type name language text =
     (case class_body of (table, h0) \<Rightarrow>
        (case getparameters_at table (PStr type) None h0 of
           Some (Inr (first, h1)) \<Rightarrow>
             (case getparameters_at table (PStr type) None h1 of
                Some (Inr (second, h2)) \<Rightarrow>
                  (case dict_at h2 first of
                     Some d \<Rightarrow>
                       (case map_of d name of
                          Some (SRef nested) \<Rightarrow>
                            (let h3 = setitem_at h2 nested language (SStr text) in
                             case getparameters_at table (PStr type) None h3 of
                               Some (Inr (third, h4)) \<Rightarrow>
                                 Some (load 2 h2 (SRef second), load 2 h3 (SRef second),
                                       load 2 h4 (SRef third))
                             | _ \<Rightarrow> None)
                        | _ \<Rightarrow> None)
                   | None \<Rightarrow> None)
              | _ \<Rightarrow> None)
         | _ \<Rightarrow> None))"


section \<open>Auxiliary facts\<close>

subsection \<open>Strings\<close>

lemma match_group_id: "match_group s = s \<longleftrightarrow> (\<forall>c\<in>set s. iskeychar c)"
  unfolding match_group_def by (rule takeWhile_eq_all_conv)

lemma space_not_keychar: "isspace c \<Longrightarrow> \<not> iskeychar c"
  by (auto simp: isspace_def iskeychar_def Let_def)

lemma strip_empty_iff: "strip s = [] \<longleftrightarrow> (\<forall>c\<in>set s. isspace c)"
proof -
  have "dropWhile isspace (rev (dropWhile isspace s)) = [] \<longleftrightarrow> (\<forall>c\<in>set (dropWhile isspace s). isspace c)"
    by (simp add: dropWhile_eq_Nil_conv)
  also have "\<dots> \<longleftrightarrow> dropWhile isspace s = []"
  proof
    assume a: "\<forall>c\<in>set (dropWhile isspace s). isspace c"
    show "dropWhile isspace s = []"
    proof (rule ccontr)
      assume "dropWhile isspace s \<noteq> []"
      then have "\<not> isspace (hd (dropWhile isspace s))" "hd (dropWhile isspace s) \<in> set (dropWhile isspace s)"
        by (simp_all add: hd_dropWhile)
      with a show False by blast
    qed
  qed (auto dest: set_dropWhileD)
  also have "\<dots> \<longleftrightarrow> (\<forall>c\<in>set s. isspace c)"
    by (simp add: dropWhile_eq_Nil_conv)
  finally show ?thesis by (simp add: strip_def)
qed


subsection \<open>Merging parameters\<close>

lemma map_of_setitem: "map_of (setitem p key v) = (map_of p)(key \<mapsto> v)"
  by (induction p key v rule: setitem.induct) auto

lemma map_of_merge:
  "map_of (foldl (\<lambda>parameters key. case map_of d key of Some v \<Rightarrow> setitem parameters key v | None \<Rightarrow> parameters) p ks) k
     = (if k \<in> set ks \<and> map_of d k \<noteq> None then map_of d k else map_of p k)"
proof (induction ks arbitrary: p)
  case Nil
  show ?case by simp
next
  case (Cons a ks)
  show ?case by (cases "map_of d a") (auto simp: Cons.IH map_of_setitem)
qed

lemma keys_iff: "k \<in> set (keys d) \<longleftrightarrow> map_of d k \<noteq> None"
  by (simp add: keys_def map_of_eq_None_iff)

lemma getparameters_lookup:
  assumes "dict_get default_parameters type = Some dflt"
  shows "\<exists>p. getparameters type (Some d) = Inr p \<and>
          (\<forall>k. map_of p k = (case map_of d k of
                                 None \<Rightarrow> map_of dflt k
                               | Some v \<Rightarrow> if v = PNone then map_of dflt k else Some v))"
proof -
  from assms have h: "hashable type" by (cases type) auto
  show ?thesis
    using assms h
    by (auto simp: getparameters_def map_of_merge keys_iff split: option.splits)
qed

lemma getparameters_None:
  "dict_get default_parameters type = Some dflt \<Longrightarrow> getparameters type None = Inr dflt"
  by (cases type) (auto simp: getparameters_def)

lemma getparameters_KeyError:
  "type \<notin> PStr ` set (map fst default_parameters) \<Longrightarrow> hashable type
     \<Longrightarrow> getparameters type defaults = Inl (KeyError type)"
proof -
  assume a: "type \<notin> PStr ` set (map fst default_parameters)" and h: "hashable type"
  have "dict_get default_parameters type = None"
  proof (cases type)
    case (PStr s)
    with a have "s \<notin> fst ` set default_parameters" by auto
    then show ?thesis using PStr by (simp add: map_of_eq_None_iff)
  qed simp_all
  with h show ?thesis by (simp add: getparameters_def)
qed

lemma getparameters_Inr_table:
  "getparameters type defaults = Inr p \<Longrightarrow> \<exists>dflt. dict_get default_parameters type = Some dflt"
  by (auto simp: getparameters_def split: if_splits option.splits)

lemma getparameters_user_key:
  assumes "getparameters type (Some d) = Inr p" and "map_of d k = Some v" and "v \<noteq> PNone"
  shows "map_of p k = Some v"
proof -
  from assms(1) obtain dflt where "dict_get default_parameters type = Some dflt"
    by (blast dest: getparameters_Inr_table)
  from getparameters_lookup [OF this, of d] assms show ?thesis by auto
qed

text \<open>Every key of the default table is a recognised type: where \<open>getparameters\<close>
  returns, \<open>istype\<close> accepts.\<close>

lemma getparameters_Inr_istype:
  assumes "getparameters type defaults = Inr p"
  shows "istype type = Inr (True, None)"
proof -
  from assms obtain dflt where d: "dict_get default_parameters type = Some dflt"
    by (auto simp: getparameters_def split: if_splits option.splits)
  then obtain s where s: "type = PStr s" by (cases type) auto
  with d have "s \<in> fst ` set default_parameters" by (auto dest: map_of_SomeD intro: rev_image_eqI)
  then have "s \<in> set types" by (auto simp: default_parameters_def types_def)
  with s show ?thesis by (simp add: istype_def)
qed

lemma getparameters_returns_iff:
  "(\<exists>p. getparameters type defaults = Inr p) \<longleftrightarrow> (\<exists>original. dict_get default_parameters type = Some original)"
  by (cases type; cases defaults) (auto simp: getparameters_def split: option.splits)

lemma getparameters_raw_KeyError:
  "type \<notin> PStr ` set (map fst default_parameters) \<Longrightarrow> hashable type
     \<Longrightarrow> getparameters_raw type defaults = Inl (KeyError type)"
  by (simp add: getparameters_raw_def getparameters_KeyError split: pyval.splits)

lemma getparameters_raw_Inr_table:
  "getparameters_raw type defaults = Inr r \<Longrightarrow> \<exists>p. getparameters type None = Inr p"
  by (cases defaults)
     (auto simp: getparameters_raw_def getparameters_def split: sum.splits if_splits option.splits)

lemma getparameters_raw_Inr_istype:
  "getparameters_raw type defaults = Inr r \<Longrightarrow> istype type = Inr (True, None)"
  by (blast dest: getparameters_raw_Inr_table getparameters_Inr_istype)

lemma getparameters_raw_Inr_isparameters:
  "getparameters_raw type defaults = Inr r \<Longrightarrow> isparameters r = (True, None)"
  by (cases defaults)
     (auto simp: getparameters_raw_def isparameters_def split: sum.splits if_splits list.splits)

lemma getparameters_raw_PDict:
  "getparameters_raw type (PDict d) = Inr r \<longleftrightarrow> (\<exists>p. getparameters type (Some d) = Inr p \<and> r = PDict p)"
  by (auto simp: getparameters_raw_def split: sum.splits)


subsection \<open>Internationalised text\<close>

lemma isquestion_isvalid_iff:
  "fst (isquestion_isvalid v) \<longleftrightarrow> (\<exists>s. v = PStr s \<and> strip s \<noteq> [])"
  by (cases v) (auto simp: isquestion_isvalid_def)

lemma isi18nified_dict:
  "fst (isi18nified (PDict d) validator) \<longleftrightarrow> (\<forall>(language, item)\<in>set d. fst (validator item))"
proof -
  have "fst (isi18nified (PDict d) validator)
          \<longleftrightarrow> filter (\<lambda>(language, item). \<not> fst (validator item)) d = []"
    by (auto simp: isi18nified_def split: list.splits)
  also have "\<dots> \<longleftrightarrow> (\<forall>(language, item)\<in>set d. fst (validator item))"
    by (auto simp: filter_empty_conv)
  finally show ?thesis .
qed

lemma isi18nified_accept: "fst (isi18nified v validator) \<Longrightarrow> isi18nified v validator = (True, None)"
  by (cases v) (auto simp: isi18nified_def split: list.splits)


subsection \<open>The loop of isvalid and the constructor\<close>

text \<open>A list or a dictionary is not a value of the declared argument of \<open>istype\<close>,
  and the constructor never passes one: there \<open>type in deprecated\<close> raises
  \<open>TypeError\<close>.\<close>

lemma istype_unhashable:
  "istype (PList xs) = Inl TypeError" "istype (PDict d) = Inl TypeError"
  by (simp_all add: istype_def)

lemma hashable_init_type: "hashable (init_type v)"
  by (cases v) (simp_all add: init_type_def)

text \<open>A type that is not a key of the default table ends the constructor with
  \<open>KeyError\<close>, before any validator runs.\<close>

lemma init_KeyError:
  "init_type (e_type entry) \<notin> PStr ` set (map fst default_parameters)
     \<Longrightarrow> init informal order key entry = Inl (KeyError (init_type (e_type entry)))"
  by (simp add: init_def getparameters_raw_KeyError hashable_init_type)

lemma init_Inr_parameters:
  assumes "init informal order key entry = Inr q"
  shows "getparameters_raw (init_type (e_type entry)) (e_parameters entry) = Inr (q_parameters q)"
  using assms
  by (auto simp: init_def Let_def split: sum.splits prod.splits if_splits)

lemma validation_accept:
  "fst r \<Longrightarrow> \<exists>m. r = (True, m)"
  by (cases r) simp

lemma isvalid_loop_pass:
  "(\<forall>(f, v)\<in>set items. \<exists>m. call f v = Inr (True, m)) \<Longrightarrow> isvalid_loop items = Inr (True, None)"
  by (induction items rule: isvalid_loop.induct) auto

lemma isvalid_loop_first:
  "(\<forall>(f, v)\<in>set passed. \<exists>m. call f v = Inr (True, m)) \<Longrightarrow> call g w = Inr (False, message)
     \<Longrightarrow> isvalid_loop (passed @ (g, w) # rest) = Inr (False, message)"
  by (induction passed rule: isvalid_loop.induct) auto

lemma init_all_pass:
  assumes g: "getparameters_raw (init_type (e_type entry)) (e_parameters entry) = Inr parameters"
    and s: "self = \<lparr>q_key = key, q_type = init_type (e_type entry),
                    q_question = i18nify informal (e_question entry),
                    q_hint = i18nify informal (e_hint entry),
                    q_help = PNone, q_parameters = parameters\<rparr>"
    and a: "\<forall>v\<in>set order. \<exists>m. call v (validations self v) = Inr (True, m)"
  shows "init informal order key entry = Inr self"
proof -
  have "isvalid order self = Inr (True, None)"
    unfolding isvalid_def using a by (intro isvalid_loop_pass) auto
  then show ?thesis using g s by (simp add: init_def Let_def)
qed

text \<open>Where \<open>getparameters\<close> returns, the constructor fails with the message of the
  first validator of the walk that rejects.\<close>

lemma init_first_rejection:
  assumes g: "getparameters_raw (init_type (e_type entry)) (e_parameters entry) = Inr parameters"
    and s: "self = \<lparr>q_key = key, q_type = init_type (e_type entry),
                    q_question = i18nify informal (e_question entry),
                    q_hint = i18nify informal (e_hint entry),
                    q_help = PNone, q_parameters = parameters\<rparr>"
    and o: "order = passed @ validator # rest"
    and a: "\<forall>v\<in>set passed. \<exists>m. call v (validations self v) = Inr (True, m)"
    and r: "call validator (validations self validator) = Inr (False, message)"
  shows "init informal order key entry = Inl (Exception message)"
proof -
  have "isvalid order self =
          isvalid_loop (map (\<lambda>v. (v, validations self v)) passed
                        @ (validator, validations self validator)
                        # map (\<lambda>v. (v, validations self v)) rest)"
    by (simp add: isvalid_def o)
  also have "\<dots> = Inr (False, message)"
    using a r by (intro isvalid_loop_first) auto
  finally show ?thesis using g s by (simp add: init_def Let_def)
qed

lemma isvalid_loop_parameters:
  "isparameters r = (True, None) \<Longrightarrow> isparameters r' = (True, None) \<Longrightarrow>
   isvalid_loop (map (\<lambda>validator. (validator, validations (q\<lparr>q_parameters := r\<rparr>) validator)) order)
     = isvalid_loop (map (\<lambda>validator. (validator, validations (q\<lparr>q_parameters := r'\<rparr>) validator)) order)"
proof (induction order)
  case Nil
  show ?case by simp
next
  case (Cons v order)
  then show ?case by (cases v) (auto split: sum.splits prod.splits)
qed

text \<open>No validator looks into the parameters: the constructor returns for an entry
  with parameters exactly when it returns for the same entry without them.\<close>

lemma init_parameters_not_validated:
  "(\<exists>q. init informal order key (entry\<lparr>e_parameters := PDict d\<rparr>) = Inr q)
     \<longleftrightarrow> (\<exists>q. init informal order key (entry\<lparr>e_parameters := PNone\<rparr>) = Inr q)"
proof (cases "\<exists>original. dict_get default_parameters (init_type (e_type entry)) = Some original")
  case False
  then have "\<And>defaults. \<not> (\<exists>p. getparameters (init_type (e_type entry)) defaults = Inr p)"
    by (simp add: getparameters_returns_iff)
  then have "\<And>defaults. \<not> (\<exists>r. getparameters_raw (init_type (e_type entry)) defaults = Inr r)"
    by (blast dest: getparameters_raw_Inr_table)
  then show ?thesis
    by (auto simp: init_def Let_def split: sum.splits)
next
  case True
  then obtain p p' where "getparameters (init_type (e_type entry)) (Some d) = Inr p"
    and "getparameters (init_type (e_type entry)) None = Inr p'"
    using getparameters_returns_iff by blast
  then have p: "getparameters_raw (init_type (e_type entry)) (PDict d) = Inr (PDict p)"
    and p': "getparameters_raw (init_type (e_type entry)) PNone = Inr (PDict p')"
    by (simp_all add: getparameters_raw_def)
  let ?q = "\<lparr>q_key = key, q_type = init_type (e_type entry),
             q_question = i18nify informal (e_question entry),
             q_hint = i18nify informal (e_hint entry), q_help = PNone, q_parameters = PNone\<rparr>"
  have "isvalid order (?q\<lparr>q_parameters := PDict p\<rparr>) = isvalid order (?q\<lparr>q_parameters := PDict p'\<rparr>)"
    unfolding isvalid_def by (rule isvalid_loop_parameters) (simp_all add: isparameters_def)
  then show ?thesis using p p'
    by (auto simp: init_def Let_def split: sum.splits prod.splits)
qed

text \<open>Parameters that are a number, a non-empty string, or a list whose first element
  is a string or an index out of range: \<open>getparameters\<close> raises before any validator
  is called.\<close>

lemma init_parameters_raise:
  assumes "getparameters (init_type (e_type entry)) None = Inr p"
  shows "e_parameters entry = PInt i \<Longrightarrow> init informal order key entry = Inl TypeError"
    and "e_parameters entry = PBool b \<Longrightarrow> init informal order key entry = Inl TypeError"
    and "e_parameters entry = PStr (c # s) \<Longrightarrow> init informal order key entry = Inl TypeError"
    and "e_parameters entry = PList (PStr s # xs) \<Longrightarrow> init informal order key entry = Inl TypeError"
    and "e_parameters entry = PList [PInt 1] \<Longrightarrow> init informal order key entry = Inl IndexError"
  using assms by (simp_all add: init_def getparameters_raw_def getitem_def)

text \<open>The definitions that evaluating the constructor on a concrete entry unfolds.\<close>

lemmas model_defs =
  init_def init_type_def strip_def isspace_def i18nify_def getparameters_raw_def getparameters_def
  default_parameters_def keys_def isvalid_def source_order_def iskey_def match_group_def
  iskeychar_def isreservedkey_def istype_def types_def deprecated_def isquestion_def
  isi18nified_def isquestion_isvalid_def ishint_def isparameters_def

lemma init_example:
  "init informal source_order (PStr ''q1'')
     \<lparr>e_type = PStr ''binary'', e_question = PDict [(''en'', PStr ''Is it?'')], e_hint = PNone,
      e_parameters = PDict [(''colour'', PStr ''red''), (''size'', PNone)]\<rparr>
   = Inr \<lparr>q_key = PStr ''q1'', q_type = PStr ''binary'',
          q_question = PDict [(''en'', PStr ''Is it?'')], q_hint = PNone, q_help = PNone,
          q_parameters = PDict [(''colour'', PStr ''red'')]\<rparr>"
  by (simp add: model_defs)

text \<open>Parameters that are a list of its own indices are accepted:
  \<open>getparameters("binary", [1, False])\<close> is \<open>{1: False, False: 1}\<close>.\<close>

lemma init_list_of_indices:
  "init informal source_order (PStr ''q1'')
     \<lparr>e_type = PStr ''binary'', e_question = PDict [(''en'', PStr ''Is it?'')], e_hint = PNone,
      e_parameters = PList [PInt 1, PBool False]\<rparr>
   = Inr \<lparr>q_key = PStr ''q1'', q_type = PStr ''binary'',
          q_question = PDict [(''en'', PStr ''Is it?'')], q_hint = PNone, q_help = PNone,
          q_parameters = PMap [(PInt 1, PBool False), (PBool False, PInt 1)]\<rparr>"
  by (simp add: model_defs getitem_def samekey_def)


subsection \<open>The store\<close>

lemma length_setitem_at [simp]: "length (setitem_at h a key v) = length h"
  by (simp add: setitem_at_def split: option.splits)

lemma setitem_at_other: "b \<noteq> a \<Longrightarrow> setitem_at h a key v ! b = h ! b"
  by (simp add: setitem_at_def split: option.splits)

lemma merge_at_frame:
  "length (foldl (\<lambda>h key. case map_of d key of Some v \<Rightarrow> setitem_at h a key v | None \<Rightarrow> h) h ks) = length h
   \<and> (\<forall>b. b \<noteq> a \<longrightarrow> foldl (\<lambda>h key. case map_of d key of Some v \<Rightarrow> setitem_at h a key v | None \<Rightarrow> h) h ks ! b = h ! b)"
proof (induction ks arbitrary: h)
  case Nil
  show ?case by simp
next
  case (Cons k ks)
  show ?case by (cases "map_of d k") (simp_all add: Cons.IH setitem_at_other)
qed

lemma getparameters_at_frame:
  assumes "getparameters_at table type defaults h = Some (Inr (a, h'))"
  shows "a = length h \<and> length h' = Suc (length h) \<and> (\<forall>b<length h. h' ! b = h ! b)"
  using assms
  by (auto simp: getparameters_at_def alloc_def merge_at_frame nth_append
           split: slot.splits option.splits if_splits)

lemma getparameters_at_copy:
  assumes "getparameters_at table type defaults h = Some (Inr (a, h'))"
  shows "\<exists>t items b original.
           table = SRef t \<and> dict_at h t = Some items \<and> dict_get items type = Some (SRef b)
           \<and> dict_at h b = Some original \<and> (defaults = None \<longrightarrow> h' = h @ [ODict original])"
  using assms
  by (auto simp: getparameters_at_def alloc_def split: slot.splits option.splits if_splits)

lemma class_body_eq:
  "class_body =
    (SRef 15,
  [ODict [], ODict [(''en'', SStr ''Please select an option'')],
   ODict [(''options'', SNone), (''prompt'', SRef 1), (''size'', SInt 1)],
   ODict [(''options'', SNone), (''size'', SInt 8)],
   ODict [(''options'', SNone), (''size'', SInt 8)],
   ODict [(''options'', SNone)],
   ODict [(''placeholder'', SNone), (''maxlength'', SInt 128)],
   ODict [(''placeholder'', SNone), (''maxlength'', SInt 512)],
   ODict [(''en'', SStr ''Please enter a number'')],
   ODict
    [(''placeholder'', SRef 8), (''min'', SNone), (''max'', SNone),
     (''maxlength'', SInt 256)],
   ODict
    [(''mindate'', SNone), (''maxdate'', SNone), (''mintime'', SNone),
     (''maxtime'', SNone)],
   ODict [(''min'', SNone), (''max'', SNone)],
   ODict
    [(''en'', SStr ''Please enter a URL e.g. http://www.example.com'')],
   ODict [(''placeholder'', SRef 12), (''maxlength'', SInt 2000)],
   ODict [(''location'', SNone)],
   ODict
    [(''binary'', SRef 0), (''dropdown-list'', SRef 2),
     (''select'', SRef 3), (''checklist'', SRef 4),
     (''illustrative-checklist'', SRef 5), (''text'', SRef 6),
     (''longtext'', SRef 7), (''number'', SRef 9), (''datetime'', SRef 10),
     (''date'', SRef 11), (''url'', SRef 13), (''geotagging'', SRef 14)]])"
  by (simp add: class_body_def default_parameters_def alloc_def)

text \<open>On the store of the class body, and for every type of the default table, the
  dictionary that \<open>getparameters_at\<close> allocates reads back as the value that
  \<open>getparameters\<close> returns.\<close>

lemma getparameters_at_agrees:
  "list_all (\<lambda>type.
      case getparameters_at (fst class_body) (PStr type) None (snd class_body) of
        Some (Inr (a, h)) \<Rightarrow>
          (case getparameters (PStr type) None of
             Inr p \<Rightarrow> load 2 h (SRef a) = Some (PDict p)
           | Inl e \<Rightarrow> False)
      | _ \<Rightarrow> False)
    (map fst default_parameters)"
  by (simp add: class_body_eq getparameters_at_def alloc_def dict_at_def getparameters_def
      default_parameters_def numeral_2_eq_2)

lemma dict_at_update: "a < length h \<Longrightarrow> dict_at (h[a := ODict d]) a = Some d"
  by (simp add: dict_at_def)

lemma merge_at_fold:
  "dict_at h a = Some p \<Longrightarrow>
     foldl (\<lambda>h key. case map_of d key of Some v \<Rightarrow> setitem_at h a key v | None \<Rightarrow> h) h ks
       = h[a := ODict (foldl (\<lambda>p key. case map_of d key of Some v \<Rightarrow> setitem p key v | None \<Rightarrow> p) p ks)]"
proof (induction ks arbitrary: h p)
  case Nil
  then have "h ! a = ODict p" by (auto simp: dict_at_def split: if_splits object.splits)
  then have "h[a := ODict p] = h" by (metis list_update_id)
  then show ?case by simp
next
  case (Cons k ks)
  from Cons.prems have a: "a < length h" by (simp add: dict_at_def split: if_splits)
  show ?case
  proof (cases "map_of d k")
    case None
    then show ?thesis using Cons by simp
  next
    case (Some v)
    have "dict_at (setitem_at h a k v) a = Some (setitem p k v)"
      using Cons.prems a by (simp add: setitem_at_def dict_at_update)
    from Cons.IH [OF this] show ?thesis
      using Some Cons.prems by (simp add: setitem_at_def)
  qed
qed

lemma load_mono:
  "load n h s = Some v \<Longrightarrow> length h \<le> length h' \<Longrightarrow> (\<forall>b<length h. h' ! b = h ! b)
     \<Longrightarrow> load n h' s = Some v"
  "load_list n h ss = Some vs \<Longrightarrow> length h \<le> length h' \<Longrightarrow> (\<forall>b<length h. h' ! b = h ! b)
     \<Longrightarrow> load_list n h' ss = Some vs"
  "load_items n h d = Some items \<Longrightarrow> length h \<le> length h' \<Longrightarrow> (\<forall>b<length h. h' ! b = h ! b)
     \<Longrightarrow> load_items n h' d = Some items"
  "load_pairs n h m = Some pairs \<Longrightarrow> length h \<le> length h' \<Longrightarrow> (\<forall>b<length h. h' ! b = h ! b)
     \<Longrightarrow> load_pairs n h' m = Some pairs"
proof (induction n h s and n h ss and n h d and n h m arbitrary: v and vs and items and pairs
       rule: load_load_list_load_items_load_pairs.induct)
  case (6 n h a)
  then show ?case by (auto split: if_splits object.splits)
next
  case (8 n h slot slots)
  then show ?case by (auto split: option.splits)
next
  case (10 n h k slot items)
  then show ?case by (auto split: option.splits)
next
  case (12 n h key slot pairs)
  then show ?case by (auto split: option.splits)
qed simp_all

lemma load_SNone: "load n h s = Some v \<Longrightarrow> (v = PNone \<longleftrightarrow> s = SNone)"
  by (cases s; cases n) (auto split: if_splits object.splits)

lemma load_items_keys: "load_items n h d = Some items \<Longrightarrow> map fst items = map fst d"
proof (induction d arbitrary: items)
  case Nil
  then show ?case by simp
next
  case (Cons e d)
  obtain k s where e: "e = (k, s)" by (cases e)
  from Cons.prems e obtain v rest where "load_items n h d = Some rest" "items = (k, v) # rest"
    by (auto split: option.splits)
  with Cons.IH e show ?case by simp
qed

lemma load_items_None:
  "load_items n h d = Some items \<Longrightarrow> map_of d k = None \<Longrightarrow> map_of items k = None"
  using load_items_keys [of n h d items]
  by (metis map_of_eq_None_iff set_map)

lemma load_items_Some:
  "load_items n h d = Some items \<Longrightarrow> map_of d k = Some s
     \<Longrightarrow> \<exists>v. load n h s = Some v \<and> map_of items k = Some v"
proof (induction d arbitrary: items)
  case Nil
  then show ?case by simp
next
  case (Cons e d)
  obtain k' x where e: "e = (k', x)" by (cases e)
  from Cons.prems(1) e obtain w rest where w: "load n h x = Some w"
    and rest: "load_items n h d = Some rest" and items: "items = (k', w) # rest"
    by (auto split: option.splits)
  show ?case
  proof (cases "k' = k")
    case True
    then show ?thesis using Cons.prems(2) e w items by simp
  next
    case False
    then have "map_of d k = Some s" using Cons.prems(2) e by simp
    from Cons.IH [OF rest this] show ?thesis using False items by simp
  qed
qed

lemma load_items_setitem:
  "load_items n h d = Some items \<Longrightarrow> load n h s = Some v
     \<Longrightarrow> load_items n h (setitem d key s) = Some (setitem items key v)"
proof (induction d arbitrary: items)
  case Nil
  then show ?case by simp
next
  case (Cons e d)
  obtain k x where e: "e = (k, x)" by (cases e)
  from Cons.prems e obtain w rest where w: "load n h x = Some w"
    and rest: "load_items n h d = Some rest" and items: "items = (k, w) # rest"
    by (auto split: option.splits)
  show ?case using Cons.IH [OF rest Cons.prems(2)] e w rest items Cons.prems(2) by simp
qed

lemma load_items_merge:
  assumes d: "load_items n h d = Some du"
  shows "load_items n h p = Some q \<Longrightarrow>
     load_items n h (foldl (\<lambda>p key. case map_of d key of Some v \<Rightarrow> setitem p key v | None \<Rightarrow> p) p ks)
       = Some (foldl (\<lambda>p key. case map_of du key of Some v \<Rightarrow> setitem p key v | None \<Rightarrow> p) q ks)"
proof (induction ks arbitrary: p q)
  case Nil
  then show ?case by simp
next
  case (Cons k ks)
  show ?case
  proof (cases "map_of d k")
    case None
    with d have "map_of du k = None" by (rule load_items_None)
    with None Cons show ?thesis by simp
  next
    case (Some s)
    with d obtain v where v: "load n h s = Some v" "map_of du k = Some v"
      by (blast dest: load_items_Some)
    from Cons.prems v(1) have "load_items n h (setitem p k s) = Some (setitem q k v)"
      by (rule load_items_setitem)
    from Cons.IH [OF this] show ?thesis using Some v by simp
  qed
qed

lemma load_items_not_None:
  assumes d: "load_items n h d = Some du"
  shows "map_of d k = Some SNone \<longleftrightarrow> map_of du k = Some PNone"
proof
  assume "map_of d k = Some SNone"
  with d obtain v where "load n h SNone = Some v" "map_of du k = Some v"
    by (blast dest: load_items_Some)
  then show "map_of du k = Some PNone" by simp
next
  assume a: "map_of du k = Some PNone"
  show "map_of d k = Some SNone"
  proof (cases "map_of d k")
    case None
    with d have "map_of du k = None" by (rule load_items_None)
    with a show ?thesis by simp
  next
    case (Some s)
    with d obtain v where v: "load n h s = Some v" "map_of du k = Some v"
      by (blast dest: load_items_Some)
    with a have "v = PNone" by simp
    with v(1) have "s = SNone" using load_SNone [of n h s v] by simp
    with Some show ?thesis by simp
  qed
qed

lemma load_items_filter_keys:
  assumes d: "load_items n h d = Some du"
  shows "filter (\<lambda>k. map_of d k \<noteq> Some SNone) (keys d) = filter (\<lambda>k. map_of du k \<noteq> Some PNone) (keys du)"
proof -
  have "keys du = keys d" using load_items_keys [OF d] by (simp add: keys_def)
  moreover have "(\<lambda>k. map_of d k \<noteq> Some SNone) = (\<lambda>k. map_of du k \<noteq> Some PNone)"
    using load_items_not_None [OF d] by auto
  ultimately show ?thesis by simp
qed

text \<open>The store holds the default table when the table object maps each type of
  \<open>default_parameters\<close>, and no other, to a dictionary that reads back as the default
  set of the type.\<close>

lemma getparameters_at_refines:
  assumes table: "dict_at h t = Some items"
    and present: "\<And>original. dict_get default_parameters type = Some original \<Longrightarrow>
           \<exists>b slots. dict_get items type = Some (SRef b) \<and> dict_at h b = Some slots
                  \<and> load_items n h slots = Some original"
    and absent: "dict_get default_parameters type = None \<Longrightarrow> dict_get items type = None"
    and user: "\<And>u. defaults = Some u \<Longrightarrow>
           \<exists>d du. dict_at h u = Some d \<and> load_items n h d = Some du \<and> user = Some du"
    and none: "defaults = None \<Longrightarrow> user = None"
  shows "case getparameters type user of
           Inl e \<Rightarrow> getparameters_at (SRef t) type defaults h = Some (Inl e)
         | Inr p \<Rightarrow> \<exists>h'. getparameters_at (SRef t) type defaults h = Some (Inr (length h, h'))
                       \<and> load (Suc n) h' (SRef (length h)) = Some (PDict p)"
proof (cases "hashable type")
  case False
  then show ?thesis using table by (simp add: getparameters_def getparameters_at_def)
next
  case True
  show ?thesis
  proof (cases "dict_get default_parameters type")
    case None
    with absent have "dict_get items type = None" by simp
    with None True table show ?thesis by (simp add: getparameters_def getparameters_at_def)
  next
    case (Some original)
    from present [OF Some] obtain b slots where b: "dict_get items type = Some (SRef b)"
      and slots: "dict_at h b = Some slots" and orig: "load_items n h slots = Some original"
      by blast
    let ?h1 = "h @ [ODict slots]"
    have ext: "length h \<le> length ?h1" "\<forall>a<length h. ?h1 ! a = h ! a"
      by (simp_all add: nth_append)
    show ?thesis
    proof (cases defaults)
      case None
      with none have u: "user = None" by simp
      have "load (Suc n) ?h1 (SRef (length h)) = Some (PDict original)"
        using load_mono(3) [OF orig ext] by simp
      then show ?thesis
        using None u Some True table b slots
        by (simp add: getparameters_def getparameters_at_def alloc_def)
    next
      case (Some u)
      from user [OF Some] obtain d du where d: "dict_at h u = Some d"
        and du: "load_items n h d = Some du" and us: "user = Some du"
        by blast
      have d1: "dict_at ?h1 u = Some d"
        using d by (auto simp: dict_at_def nth_append split: if_splits)
      have p1: "dict_at ?h1 (length h) = Some slots" by (simp add: dict_at_def)
      let ?ks = "filter (\<lambda>k. map_of d k \<noteq> Some SNone) (keys d)"
      let ?merged = "foldl (\<lambda>p key. case map_of d key of Some v \<Rightarrow> setitem p key v | None \<Rightarrow> p) slots ?ks"
      let ?h2 = "?h1[length h := ODict ?merged]"
      have run: "getparameters_at (SRef t) type defaults h = Some (Inr (length h, ?h2))"
        using Some True table b slots d1 \<open>dict_get default_parameters type = Some original\<close>
        by (simp add: getparameters_at_def alloc_def merge_at_fold [OF p1])
      have ext2: "length h \<le> length ?h2" "\<forall>a<length h. ?h2 ! a = h ! a"
        by (simp_all add: nth_append)
      have "load_items n ?h2 ?merged
              = Some (foldl (\<lambda>p key. case map_of du key of Some v \<Rightarrow> setitem p key v | None \<Rightarrow> p) original ?ks)"
        using load_mono(3) [OF du ext2] load_mono(3) [OF orig ext2] by (rule load_items_merge)
      then have "load (Suc n) ?h2 (SRef (length h))
              = Some (PDict (foldl (\<lambda>p key. case map_of du key of Some v \<Rightarrow> setitem p key v | None \<Rightarrow> p) original ?ks))"
        by simp
      moreover have "getparameters type user
              = Inr (foldl (\<lambda>p key. case map_of du key of Some v \<Rightarrow> setitem p key v | None \<Rightarrow> p) original ?ks)"
        using True \<open>dict_get default_parameters type = Some original\<close> us
        by (simp add: getparameters_def load_items_filter_keys [OF du])
      ultimately show ?thesis using run by simp
    qed
  qed
qed


section \<open>Properties of the validators, of getparameters and of the constructor\<close>

subsection \<open>Unrecognised and deprecated types\<close>

text \<open>
  Claim C1. The claim: an entry whose type is not recognised, a deprecated alias included,
  fails with the message of the type validator, and parameter resolution never masks that
  message. The constructor calls \<open>getparameters\<close> before \<open>isvalid\<close>, and the
  subscript of the default table raises \<open>KeyError\<close>: for the entry of type
  \<open>single_choice\<close> the constructor ends with \<open>KeyError\<close>, whatever the order of
  the validators, although \<open>istype\<close> on the same type returns the deprecation message
  that names \<open>select\<close>.
\<close>

theorem init_deprecated_type_raises_KeyError:
  "init informal order (PStr ''q1'')
      \<lparr>e_type = PStr ''single_choice'', e_question = PDict [(''en'', PStr ''Pick one'')],
       e_hint = PNone, e_parameters = PNone\<rparr>
     = Inl (KeyError (PStr ''single_choice''))
   \<and> istype (PStr ''single_choice'')
     = Inr (False, Some (''Error! The question type '' @ quoted ''single_choice''
            @ '' is deprecated and has been replaced with '' @ quoted ''select'' @ ''.''))"
proof
  have "init_type (PStr ''single_choice'') = PStr ''single_choice''"
    by (simp add: init_type_def strip_def isspace_def)
  moreover have "PStr ''single_choice'' \<notin> PStr ` set (map fst default_parameters)"
    by (simp add: default_parameters_def image_iff)
  ultimately show "init informal order (PStr ''q1'')
      \<lparr>e_type = PStr ''single_choice'', e_question = PDict [(''en'', PStr ''Pick one'')],
       e_hint = PNone, e_parameters = PNone\<rparr>
     = Inl (KeyError (PStr ''single_choice''))"
    using init_KeyError [of "\<lparr>e_type = PStr ''single_choice'', e_question = PDict [(''en'', PStr ''Pick one'')],
       e_hint = PNone, e_parameters = PNone\<rparr>" informal order "PStr ''q1''"]
    by simp
  show "istype (PStr ''single_choice'')
     = Inr (False, Some (''Error! The question type '' @ quoted ''single_choice''
            @ '' is deprecated and has been replaced with '' @ quoted ''select'' @ ''.''))"
    by (simp add: istype_def types_def deprecated_def)
qed


subsection \<open>The type custom\<close>

text \<open>
  Claim C2. The claim: \<open>custom\<close> is a recognised type whose set of default parameters
  is empty. \<open>istype\<close> accepts \<open>custom\<close>, but the default table has no entry for it:
  \<open>getparameters\<close> raises \<open>KeyError\<close>, and so does the constructor for an
  otherwise valid entry of type \<open>custom\<close>.
\<close>

theorem custom_has_no_default_parameters:
  "istype (PStr ''custom'') = Inr (True, None)
   \<and> getparameters (PStr ''custom'') None = Inl (KeyError (PStr ''custom''))
   \<and> init informal order (PStr ''q1'')
        \<lparr>e_type = PStr ''custom'', e_question = PDict [(''en'', PStr ''Describe it'')],
         e_hint = PNone, e_parameters = PNone\<rparr>
       = Inl (KeyError (PStr ''custom''))"
proof -
  have n: "PStr ''custom'' \<notin> PStr ` set (map fst default_parameters)"
    by (simp add: default_parameters_def image_iff)
  have t: "init_type (PStr ''custom'') = PStr ''custom''"
    by (simp add: init_type_def strip_def isspace_def)
  have "istype (PStr ''custom'') = Inr (True, None)"
    by (simp add: istype_def types_def)
  moreover have "getparameters (PStr ''custom'') None = Inl (KeyError (PStr ''custom''))"
    using n by (simp add: getparameters_KeyError)
  moreover have "init informal order (PStr ''q1'')
        \<lparr>e_type = PStr ''custom'', e_question = PDict [(''en'', PStr ''Describe it'')],
         e_hint = PNone, e_parameters = PNone\<rparr>
       = Inl (KeyError (PStr ''custom''))"
    using n t init_KeyError [of "\<lparr>e_type = PStr ''custom'', e_question = PDict [(''en'', PStr ''Describe it'')],
         e_hint = PNone, e_parameters = PNone\<rparr>" informal order "PStr ''q1''"]
    by simp
  ultimately show ?thesis by simp
qed


subsection \<open>Which failure the constructor reports\<close>

text \<open>
  Claim C3. The claim: an entry that violates more than one rule fails with the message of
  the first violated rule in the order key, type, question text, hint, shape of the
  parameters; its example is an illegal key together with an unrecognised type, which is to
  report the key. The constructor calls \<open>getparameters\<close> before \<open>isvalid\<close>: for the
  example it ends with \<open>KeyError\<close>, in every order of the validators, although
  \<open>iskey\<close> rejects the key with its message; and for an illegal key together with
  parameters that are a number it ends with \<open>TypeError\<close>. Where \<open>getparameters\<close>
  returns, the walk in the order of the source text does report the key first.
\<close>

theorem init_illegal_key_unrecognized_type_raises_KeyError:
  "init informal order (PStr ''a b'')
     \<lparr>e_type = PStr ''bogus'', e_question = PDict [(''en'', PStr ''Pick one'')],
      e_hint = PNone, e_parameters = PNone\<rparr>
     = Inl (KeyError (PStr ''bogus''))
   \<and> iskey (PStr ''a b'')
     = (False, Some (''Error! The key '' @ quoted ''a b'' @ '' contains an illegal character. A key may only contain letters (a-z, A-Z), numbers (0-9), hyphens (-), and underscores (_). It must not contain any whitespace.''))
   \<and> init informal order (PStr ''a b'')
     \<lparr>e_type = PStr ''text'', e_question = PDict [(''en'', PStr ''Pick one'')],
      e_hint = PNone, e_parameters = PInt 5\<rparr>
     = Inl TypeError
   \<and> init informal source_order (PStr ''a b'')
     \<lparr>e_type = PStr ''text'', e_question = PDict [(''en'', PStr ''  '')],
      e_hint = PNone, e_parameters = PNone\<rparr>
     = Inl (Exception (Some (''Error! The key '' @ quoted ''a b'' @ '' contains an illegal character. A key may only contain letters (a-z, A-Z), numbers (0-9), hyphens (-), and underscores (_). It must not contain any whitespace.'')))"
proof (intro conjI)
  have "init_type (PStr ''bogus'') = PStr ''bogus''"
    by (simp add: init_type_def strip_def isspace_def)
  moreover have "PStr ''bogus'' \<notin> PStr ` set (map fst default_parameters)"
    by (simp add: default_parameters_def image_iff)
  ultimately show "init informal order (PStr ''a b'')
     \<lparr>e_type = PStr ''bogus'', e_question = PDict [(''en'', PStr ''Pick one'')],
      e_hint = PNone, e_parameters = PNone\<rparr>
     = Inl (KeyError (PStr ''bogus''))"
    using init_KeyError [of "\<lparr>e_type = PStr ''bogus'', e_question = PDict [(''en'', PStr ''Pick one'')],
      e_hint = PNone, e_parameters = PNone\<rparr>" informal order "PStr ''a b''"]
    by simp
  show "iskey (PStr ''a b'')
     = (False, Some (''Error! The key '' @ quoted ''a b'' @ '' contains an illegal character. A key may only contain letters (a-z, A-Z), numbers (0-9), hyphens (-), and underscores (_). It must not contain any whitespace.''))"
    by (simp add: iskey_def match_group_def iskeychar_def)
  show "init informal order (PStr ''a b'')
     \<lparr>e_type = PStr ''text'', e_question = PDict [(''en'', PStr ''Pick one'')],
      e_hint = PNone, e_parameters = PInt 5\<rparr>
     = Inl TypeError"
    by (simp add: init_def init_type_def strip_def isspace_def getparameters_raw_def
        getparameters_def default_parameters_def)
  show "init informal source_order (PStr ''a b'')
     \<lparr>e_type = PStr ''text'', e_question = PDict [(''en'', PStr ''  '')],
      e_hint = PNone, e_parameters = PNone\<rparr>
     = Inl (Exception (Some (''Error! The key '' @ quoted ''a b'' @ '' contains an illegal character. A key may only contain letters (a-z, A-Z), numbers (0-9), hyphens (-), and underscores (_). It must not contain any whitespace.'')))"
    by (simp add: model_defs)
qed


subsection \<open>Independence of the dictionaries that getparameters returns\<close>

text \<open>
  Claim C4, amended. Every call of \<open>getparameters\<close> returns a new dictionary, a shallow
  copy of the default set of the type: its address was not allocated before the call, the
  call leaves every object that existed before it unchanged (the default table and the
  results of earlier calls among them), and an assignment to a key of the returned
  dictionary changes no other object. The entries of the new dictionary are the slots of
  the default set themselves: with no user parameters the new object holds exactly them, so
  a default value that is a dictionary is shared with the table and not copied.
\<close>

theorem getparameters_at_shallow_copy:
  assumes "getparameters_at table type defaults h = Some (Inr (parameters, h'))"
  shows "parameters = length h
       \<and> (\<forall>a<length h. h' ! a = h ! a)
       \<and> (\<forall>a. a \<noteq> parameters \<longrightarrow> setitem_at h' parameters key v ! a = h' ! a)
       \<and> (\<exists>t items b original.
             table = SRef t \<and> dict_at h t = Some items \<and> dict_get items type = Some (SRef b)
             \<and> dict_at h b = Some original \<and> (defaults = None \<longrightarrow> h' = h @ [ODict original]))"
  using getparameters_at_frame [OF assms] getparameters_at_copy [OF assms]
  by (simp add: setitem_at_other)

text \<open>For \<open>select\<close>, whose defaults hold no reference: the call returns the new address
  16, and after \<open>parameters["size"] = 3\<close> the default set of \<open>select\<close>, at address 3,
  still holds the size 8.\<close>

theorem getparameters_at_shallow_copy_witness:
  "getparameters_at (fst class_body) (PStr ''select'') None (snd class_body)
     = Some (Inr (16, snd class_body @ [ODict [(''options'', SNone), (''size'', SInt 8)]]))
   \<and> setitem_at (snd class_body @ [ODict [(''options'', SNone), (''size'', SInt 8)]]) 16 ''size'' (SInt 3) ! 3
     = ODict [(''options'', SNone), (''size'', SInt 8)]
   \<and> setitem_at (snd class_body @ [ODict [(''options'', SNone), (''size'', SInt 8)]]) 16 ''size'' (SInt 3) ! 16
     = ODict [(''options'', SNone), (''size'', SInt 3)]"
proof -
  let ?h' = "snd class_body @ [ODict [(''options'', SNone), (''size'', SInt 8)]]"
  have c: "getparameters_at (fst class_body) (PStr ''select'') None (snd class_body)
             = Some (Inr (16, ?h'))"
    by (simp add: class_body_eq getparameters_at_def alloc_def dict_at_def)
  have "(3::nat) \<noteq> 16" by simp
  with getparameters_at_shallow_copy [OF c, of "''size''" "SInt 3"]
  have "setitem_at ?h' 16 ''size'' (SInt 3) ! 3 = ?h' ! 3" by blast
  moreover have "?h' ! 3 = ODict [(''options'', SNone), (''size'', SInt 8)]"
    by (simp add: class_body_eq)
  moreover have "setitem_at ?h' 16 ''size'' (SInt 3) ! 16 = ODict [(''options'', SNone), (''size'', SInt 3)]"
    by (simp add: class_body_eq setitem_at_def dict_at_def)
  ultimately show ?thesis using c by simp
qed

text \<open>For \<open>dropdown-list\<close> the default prompt is shared: after
  \<open>first["prompt"]["en"] = "Choose"\<close> the result of the second call and the result of a
  later call both read the new prompt.\<close>

theorem shared_default_counterexample:
  "shared_default ''dropdown-list'' ''prompt'' ''en'' ''Choose''
     = Some (Some (PDict [(''options'', PNone),
                          (''prompt'', PDict [(''en'', PStr ''Please select an option'')]),
                          (''size'', PInt 1)]),
             Some (PDict [(''options'', PNone),
                          (''prompt'', PDict [(''en'', PStr ''Choose'')]),
                          (''size'', PInt 1)]),
             Some (PDict [(''options'', PNone),
                          (''prompt'', PDict [(''en'', PStr ''Choose'')]),
                          (''size'', PInt 1)]))"
  by (simp add: shared_default_def class_body_eq getparameters_at_def alloc_def dict_at_def
      setitem_at_def numeral_2_eq_2)


subsection \<open>Merging user parameters over the defaults\<close>

text \<open>
  Claim C6. \<open>getparameters\<close> merges the user parameters over the defaults of the type
  and ignores the user entries whose value is \<open>None\<close>:
  \<open>getparameters("text", {"maxlength": 64})\<close> is \<open>{"placeholder": None, "maxlength": 64}\<close>,
  \<open>getparameters("text", {"maxlength": None})\<close> is
  \<open>{"placeholder": None, "maxlength": 128}\<close>, and for every type of the default table
  and every user dictionary the result maps a key to the user value when there is one
  other than \<open>None\<close>, and to the default (or to nothing) otherwise.
\<close>

theorem getparameters_merges_over_defaults:
  "getparameters (PStr ''text'') (Some [(''maxlength'', PInt 64)])
     = Inr [(''placeholder'', PNone), (''maxlength'', PInt 64)]
   \<and> getparameters (PStr ''text'') (Some [(''maxlength'', PNone)])
     = Inr [(''placeholder'', PNone), (''maxlength'', PInt 128)]
   \<and> (dict_get default_parameters type = Some dflt \<longrightarrow>
        (\<exists>p. getparameters type (Some d) = Inr p \<and>
           (\<forall>k. map_of p k = (case map_of d k of
                                  None \<Rightarrow> map_of dflt k
                                | Some v \<Rightarrow> if v = PNone then map_of dflt k else Some v))))"
proof (intro conjI impI)
  show "getparameters (PStr ''text'') (Some [(''maxlength'', PInt 64)])
     = Inr [(''placeholder'', PNone), (''maxlength'', PInt 64)]"
    by (simp add: getparameters_def default_parameters_def keys_def)
  show "getparameters (PStr ''text'') (Some [(''maxlength'', PNone)])
     = Inr [(''placeholder'', PNone), (''maxlength'', PInt 128)]"
    by (simp add: getparameters_def default_parameters_def keys_def)
next
  assume "dict_get default_parameters type = Some dflt"
  then show "\<exists>p. getparameters type (Some d) = Inr p \<and>
           (\<forall>k. map_of p k = (case map_of d k of
                                  None \<Rightarrow> map_of dflt k
                                | Some v \<Rightarrow> if v = PNone then map_of dflt k else Some v))"
    by (rule getparameters_lookup)
qed

theorem getparameters_merges_over_defaults_witness:
  "\<exists>p. getparameters (PStr ''select'') (Some [(''options'', PList [PStr ''a'', PStr ''b'']), (''size'', PNone)]) = Inr p
      \<and> map_of p ''options'' = Some (PList [PStr ''a'', PStr ''b''])
      \<and> map_of p ''size'' = Some (PInt 8)"
proof -
  have "dict_get default_parameters (PStr ''select'') = Some [(''options'', PNone), (''size'', PInt 8)]"
    by (simp add: default_parameters_def)
  with getparameters_merges_over_defaults
         [of "PStr ''select''" "[(''options'', PNone), (''size'', PInt 8)]"
             "[(''options'', PList [PStr ''a'', PStr ''b'']), (''size'', PNone)]"]
  obtain p where p: "getparameters (PStr ''select'') (Some [(''options'', PList [PStr ''a'', PStr ''b'']), (''size'', PNone)]) = Inr p"
    and l: "\<forall>k. map_of p k = (case map_of [(''options'', PList [PStr ''a'', PStr ''b'']), (''size'', PNone)] k of
                                  None \<Rightarrow> map_of [(''options'', PNone), (''size'', PInt 8)] k
                                | Some v \<Rightarrow> if v = PNone then map_of [(''options'', PNone), (''size'', PInt 8)] k else Some v)"
    by blast
  from l have "map_of p ''options'' = Some (PList [PStr ''a'', PStr ''b''])" by simp
  moreover from l have "map_of p ''size'' = Some (PInt 8)" by simp
  ultimately show ?thesis using p by blast
qed


subsection \<open>Keys\<close>

text \<open>
  Claim C7. \<open>iskey\<close> accepts a value exactly when it is a non-empty string made only
  of ASCII letters, digits, underscores and hyphens (the class \<open>iskeychar\<close>) that is not
  one of the reserved keys \<open>end\<close>, \<open>photoAccessible\<close>, \<open>photoVisible\<close>. It
  therefore rejects every value that is not a string, the empty string, every reserved key
  and every string with a character outside the class; a string that contains whitespace is
  rejected in particular.
\<close>

theorem iskey_accepts_exactly:
  "(fst (iskey key) \<longleftrightarrow>
      (\<exists>s. key = PStr s \<and> s \<noteq> [] \<and> (\<forall>c\<in>set s. iskeychar c)
         \<and> s \<notin> {''end'', ''photoAccessible'', ''photoVisible''}))
   \<and> ((\<exists>c\<in>set t. isspace c) \<longrightarrow> \<not> fst (iskey (PStr t)))"
proof
  show "fst (iskey key) \<longleftrightarrow>
      (\<exists>s. key = PStr s \<and> s \<noteq> [] \<and> (\<forall>c\<in>set s. iskeychar c)
         \<and> s \<notin> {''end'', ''photoAccessible'', ''photoVisible''})"
    by (cases key) (auto simp: iskey_def match_group_id isreservedkey_def)
  show "(\<exists>c\<in>set t. isspace c) \<longrightarrow> \<not> fst (iskey (PStr t))"
    by (auto simp: iskey_def match_group_id dest: space_not_keychar)
qed

theorem iskey_accepts_exactly_witness:
  "fst (iskey (PStr ''q-1_A'')) \<and> \<not> fst (iskey (PStr ''a b''))"
  using iskey_accepts_exactly [of "PStr ''q-1_A''" "''a b''"]
  by (simp add: iskeychar_def isspace_def)


subsection \<open>Types\<close>




subsection \<open>Internationalised values\<close>

text \<open>
  Claim C9. With the item validator of \<open>isquestion\<close>, \<open>isi18nified\<close> accepts
  \<open>None\<close>, and accepts a dictionary exactly when each of its values is a string that is
  not empty once stripped; so it rejects \<open>{"en": ""}\<close>, accepts \<open>{"en": "Hello"}\<close>,
  rejects a text made of a space, a no-break space, a unit separator and a line feed,
  rejects every dictionary with a blank or non-string value, and rejects every list, bare
  string, number and boolean. A string is empty once stripped exactly when it consists of
  whitespace only.
\<close>

theorem isi18nified_nonempty_strings:
  "isi18nified PNone isquestion_isvalid = (True, None)
   \<and> (isi18nified (PDict d) isquestion_isvalid = (True, None)
        \<longleftrightarrow> (\<forall>(language, item)\<in>set d. \<exists>s. item = PStr s \<and> strip s \<noteq> []))
   \<and> \<not> fst (isi18nified (PDict [(''en'', PStr '''')]) isquestion_isvalid)
   \<and> fst (isi18nified (PDict [(''en'', PStr ''Hello'')]) isquestion_isvalid)
   \<and> \<not> fst (isi18nified (PDict [(''en'', PStr [CHR 0x20, CHR 0xA0, CHR 0x1F, CHR 0x0A])])
              isquestion_isvalid)
   \<and> \<not> fst (isi18nified (PList xs) isquestion_isvalid)
   \<and> \<not> fst (isi18nified (PStr s) isquestion_isvalid)
   \<and> \<not> fst (isi18nified (PInt i) isquestion_isvalid)
   \<and> \<not> fst (isi18nified (PBool b) isquestion_isvalid)
   \<and> \<not> fst (isi18nified (PMap m) isquestion_isvalid)
   \<and> (strip t = [] \<longleftrightarrow> (\<forall>c\<in>set t. isspace c))"
proof -
  have a: "isi18nified (PDict d) isquestion_isvalid = (True, None)
        \<longleftrightarrow> (\<forall>(language, item)\<in>set d. \<exists>s. item = PStr s \<and> strip s \<noteq> [])"
    using isi18nified_dict [of d isquestion_isvalid] isi18nified_accept [of "PDict d" isquestion_isvalid]
    by (auto simp: isquestion_isvalid_iff)
  have b: "\<not> fst (isi18nified (PDict [(''en'', PStr '''')]) isquestion_isvalid)"
    by (simp add: isi18nified_dict isquestion_isvalid_iff strip_def)
  have c: "fst (isi18nified (PDict [(''en'', PStr ''Hello'')]) isquestion_isvalid)"
    by (simp add: isi18nified_dict isquestion_isvalid_iff strip_def isspace_def)
  have d: "\<not> fst (isi18nified (PDict [(''en'', PStr [CHR 0x20, CHR 0xA0, CHR 0x1F, CHR 0x0A])])
              isquestion_isvalid)"
    by (simp add: isi18nified_dict isquestion_isvalid_iff strip_empty_iff isspace_def)
  show ?thesis using a b c d strip_empty_iff [of t] by (simp add: isi18nified_def)
qed

theorem isi18nified_nonempty_strings_witness:
  "isi18nified (PDict [(''en'', PStr ''Hello''), (''fr'', PStr '' Bonjour '')]) isquestion_isvalid = (True, None)
   \<and> isi18nified (PDict [(''en'', PStr ''Hello''), (''fr'', PStr ''  '')]) isquestion_isvalid \<noteq> (True, None)
   \<and> isi18nified (PDict [(''en'', PInt 3)]) isquestion_isvalid \<noteq> (True, None)"
  using isi18nified_nonempty_strings [of "[(''en'', PStr ''Hello''), (''fr'', PStr '' Bonjour '')]"]
        isi18nified_nonempty_strings [of "[(''en'', PStr ''Hello''), (''fr'', PStr ''  '')]"]
        isi18nified_nonempty_strings [of "[(''en'', PInt 3)]"]
  by (simp add: strip_def isspace_def)


subsection \<open>The parameters validator\<close>

text \<open>
  Claim C10. \<open>isparameters\<close> accepts every dictionary and \<open>None\<close>; it is not given
  the type of the question and checks neither names nor values. Every user parameter whose
  value is not \<open>None\<close>, whether or not the default set of the type has its key, is a
  parameter of the constructed question with that value; and whether an entry is
  constructed does not depend on its parameters: it is constructed with a dictionary of
  parameters exactly when it is constructed without one.
\<close>

theorem isparameters_accepts_every_dictionary:
  "isparameters (PDict d) = (True, None)
   \<and> isparameters PNone = (True, None)
   \<and> (init informal order key entry = Inr q \<and> e_parameters entry = PDict d
        \<and> map_of d k = Some v \<and> v \<noteq> PNone
        \<longrightarrow> (\<exists>p. q_parameters q = PDict p \<and> map_of p k = Some v))
   \<and> ((\<exists>q'. init informal order key (entry\<lparr>e_parameters := PDict d'\<rparr>) = Inr q')
        \<longleftrightarrow> (\<exists>q'. init informal order key (entry\<lparr>e_parameters := PNone\<rparr>) = Inr q'))"
proof (intro conjI impI)
  show "isparameters (PDict d) = (True, None)" by (simp add: isparameters_def)
  show "isparameters PNone = (True, None)" by (simp add: isparameters_def)
next
  assume a: "init informal order key entry = Inr q \<and> e_parameters entry = PDict d
        \<and> map_of d k = Some v \<and> v \<noteq> PNone"
  then have "getparameters_raw (init_type (e_type entry)) (PDict d) = Inr (q_parameters q)"
    using init_Inr_parameters [of informal order key entry q] by simp
  then obtain p where p: "getparameters (init_type (e_type entry)) (Some d) = Inr p"
    and q: "q_parameters q = PDict p"
    by (auto simp: getparameters_raw_PDict)
  from p a have "map_of p k = Some v" by (auto intro: getparameters_user_key)
  with q show "\<exists>p. q_parameters q = PDict p \<and> map_of p k = Some v" by blast
next
  show "(\<exists>q'. init informal order key (entry\<lparr>e_parameters := PDict d'\<rparr>) = Inr q')
        \<longleftrightarrow> (\<exists>q'. init informal order key (entry\<lparr>e_parameters := PNone\<rparr>) = Inr q')"
    by (rule init_parameters_not_validated)
qed

theorem isparameters_accepts_every_dictionary_witness:
  "init (\<lambda>v. v) source_order (PStr ''q1'')
     \<lparr>e_type = PStr ''binary'', e_question = PDict [(''en'', PStr ''Is it?'')], e_hint = PNone,
      e_parameters = PDict [(''colour'', PStr ''red''), (''size'', PNone)]\<rparr>
   = Inr \<lparr>q_key = PStr ''q1'', q_type = PStr ''binary'',
          q_question = PDict [(''en'', PStr ''Is it?'')], q_hint = PNone, q_help = PNone,
          q_parameters = PDict [(''colour'', PStr ''red'')]\<rparr>
   \<and> (\<exists>p. q_parameters \<lparr>q_key = PStr ''q1'', q_type = PStr ''binary'',
          q_question = PDict [(''en'', PStr ''Is it?'')], q_hint = PNone, q_help = PNone,
          q_parameters = PDict [(''colour'', PStr ''red'')]\<rparr> = PDict p
        \<and> map_of p ''colour'' = Some (PStr ''red''))"
  using init_example [of "\<lambda>v. v"]
    isparameters_accepts_every_dictionary
      [where d = "[(''colour'', PStr ''red''), (''size'', PNone)]" and informal = "\<lambda>v. v"
         and order = source_order and key = "PStr ''q1''"
         and entry = "\<lparr>e_type = PStr ''binary'', e_question = PDict [(''en'', PStr ''Is it?'')],
            e_hint = PNone, e_parameters = PDict [(''colour'', PStr ''red''), (''size'', PNone)]\<rparr>"
         and q = "\<lparr>q_key = PStr ''q1'', q_type = PStr ''binary'',
            q_question = PDict [(''en'', PStr ''Is it?'')], q_hint = PNone, q_help = PNone,
            q_parameters = PDict [(''colour'', PStr ''red'')]\<rparr>"
         and k = "''colour''" and v = "PStr ''red''"]
  by simp

end
